theory Spec2Isabelle
  imports Main "HOL-Library.AList" "HOL-Library.Sublist"
begin

section \<open>JSON values, JavaScript objects and strings\<close>

text \<open>
  The tool arguments, the request payloads and the remote API's answers are JSON values.
  A JavaScript object is an association list in insertion order. JavaScript numbers are
  restricted to the integers that a template literal prints in plain decimal; strings are
  lists of 8-bit characters, so the string functions below are those of ASCII text.
\<close>

datatype json =
    JNull
  | JBool bool
  | JNum int
  | JStr string
  | JArr "json list"
  | JObj "(string \<times> json) list"

type_synonym object = "(string \<times> json) list"

text \<open>The object spread \<open>{ ...dst, ...src }\<close>: every property of \<open>src\<close> is written into
  \<open>dst\<close> in order, replacing the value of a key that is already there.\<close>

definition spread :: "('k \<times> 'v) list \<Rightarrow> ('k \<times> 'v) list \<Rightarrow> ('k \<times> 'v) list" where
  "spread dst src = fold (\<lambda>(k, v). AList.update k v) src dst"

text \<open>Spreading \<open>undefined\<close> adds nothing.\<close>

definition spread_opt :: "('k \<times> 'v) list \<Rightarrow> ('k \<times> 'v) list option \<Rightarrow> ('k \<times> 'v) list" where
  "spread_opt dst src = (case src of None \<Rightarrow> dst | Some s \<Rightarrow> spread dst s)"

text \<open>Decimal rendering of a number inside a template literal.\<close>

definition digit_char :: "nat \<Rightarrow> char" where
  "digit_char d = ''0123456789'' ! d"

function show_nat :: "nat \<Rightarrow> string" where
  "show_nat n = (if n < 10 then [digit_char n] else show_nat (n div 10) @ [digit_char (n mod 10)])"
  by pat_completeness auto
termination
  by (relation "measure id") auto

declare show_nat.simps [simp del]

definition show_int :: "int \<Rightarrow> string" where
  "show_int i = (if i < 0 then CHR ''-'' # show_nat (nat (- i)) else show_nat (nat i))"

text \<open>\<open>Array.prototype.join\<close>.\<close>

fun join :: "string \<Rightarrow> string list \<Rightarrow> string" where
  "join sep [] = []"
| "join sep [x] = x"
| "join sep (x # y # ys) = x @ sep @ join sep (y # ys)"

text \<open>\<open>String.prototype.toLowerCase\<close> on ASCII text.\<close>

definition lower_char :: "char \<Rightarrow> char" where
  "lower_char c =
     (let n = (of_char c :: nat) in if 65 \<le> n \<and> n \<le> 90 then char_of (n + 32) else c)"

definition toLowerCase :: "string \<Rightarrow> string" where
  "toLowerCase s = map lower_char s"

text \<open>The character class \<open>[a-z0-9]\<close>, and \<open>s.replace(/[^a-z0-9]+/g, '-')\<close>: scanning from
  the left, every maximal run of characters outside the class becomes one hyphen.\<close>

definition in_class :: "char \<Rightarrow> bool" where
  "in_class c =
     (let n = (of_char c :: nat) in (97 \<le> n \<and> n \<le> 122) \<or> (48 \<le> n \<and> n \<le> 57))"

function replace_runs :: "string \<Rightarrow> string" where
  "replace_runs [] = []"
| "replace_runs (c # cs) =
     (if in_class c then c # replace_runs cs
      else CHR ''-'' # replace_runs (dropWhile (\<lambda>x. \<not> in_class x) cs))"
  by pat_completeness auto
termination
  by (relation "measure length") (auto simp: le_imp_less_Suc length_dropWhile_le)

text \<open>A string is truthy when it is defined and not empty; \<open>a || b\<close> is \<open>a\<close> when
  \<open>a\<close> is truthy and \<open>b\<close> otherwise.\<close>

definition truthy :: "string option \<Rightarrow> bool" where
  "truthy s = (case s of None \<Rightarrow> False | Some x \<Rightarrow> x \<noteq> [])"

definition or_else :: "string option \<Rightarrow> string \<Rightarrow> string" where
  "or_else a b = (case a of None \<Rightarrow> b | Some x \<Rightarrow> if x \<noteq> [] then x else b)"

text \<open>\<open>if (v) obj[key] = v\<close> for an optional string \<open>v\<close>.\<close>

definition assign_if_truthy :: "string \<Rightarrow> string option \<Rightarrow> (string \<times> json) list \<Rightarrow> (string \<times> json) list" where
  "assign_if_truthy key v obj =
     (case v of None \<Rightarrow> obj | Some x \<Rightarrow> if x \<noteq> [] then AList.update key (JStr x) obj else obj)"

section \<open>Payload construction\<close>

text \<open>The \<open>itemData\<close> object of the \<open>create_collection_item\<close> case: in \<open>fieldData\<close> the
  name and the slug are written first and the caller's \<open>fieldData\<close> is spread over them.\<close>

definition derived_slug :: "string \<Rightarrow> string" where
  "derived_slug name = replace_runs (toLowerCase name)"

definition create_fieldData :: "string \<Rightarrow> string option \<Rightarrow> object option \<Rightarrow> object" where
  "create_fieldData name slug fieldData =
     spread_opt
       [(''name'', JStr name),
        (''slug'', JStr (or_else slug (derived_slug name)))]
       fieldData"

definition itemData :: "string \<Rightarrow> string option \<Rightarrow> object option \<Rightarrow> bool \<Rightarrow> bool \<Rightarrow> object" where
  "itemData name slug fieldData isDraft isArchived =
     [(''fieldData'', JObj (create_fieldData name slug fieldData)),
      (''isDraft'', JBool isDraft),
      (''isArchived'', JBool isArchived)]"

text \<open>The \<open>updateData\<close> object of the \<open>update_collection_item\<close> case, built by the same
  sequence of guarded assignments as the source.\<close>

definition update_fieldData :: "string option \<Rightarrow> string option \<Rightarrow> object option \<Rightarrow> object" where
  "update_fieldData name slug fieldData =
     (let fd0 = [];
          fd1 = assign_if_truthy ''name'' name fd0;
          fd2 = assign_if_truthy ''slug'' slug fd1
      in case fieldData of None \<Rightarrow> fd2 | Some fd \<Rightarrow> spread (spread [] fd2) fd)"

definition updateData ::
  "string option \<Rightarrow> string option \<Rightarrow> object option \<Rightarrow> bool option \<Rightarrow> bool option \<Rightarrow> object" where
  "updateData name slug fieldData isDraft isArchived =
     (let u0 = [];
          u1 = (if truthy name \<or> truthy slug \<or> fieldData \<noteq> None
                then AList.update ''fieldData'' (JObj (update_fieldData name slug fieldData)) u0
                else u0);
          u2 = (case isDraft of None \<Rightarrow> u1 | Some b \<Rightarrow> AList.update ''isDraft'' (JBool b) u1)
      in case isArchived of None \<Rightarrow> u2 | Some b \<Rightarrow> AList.update ''isArchived'' (JBool b) u2)"

section \<open>Argument validation\<close>

text \<open>
  The schemas are built from the validation library's combinators. A validator takes the
  path of the value and the value (\<open>None\<close> for \<open>undefined\<close>) and returns either the list
  of issues or the typed result. An issue holds the path of the offending value and a
  message: \<open>Required\<close> when the value is undefined, and otherwise the expected and the
  received type.
\<close>

datatype path_elem = PKey string | PIdx nat

datatype zod_issue = ZodIssue (issue_path: "path_elem list") (issue_message: string)

type_synonym 'a zod = "path_elem list \<Rightarrow> json option \<Rightarrow> zod_issue list + 'a"

fun getParsedType :: "json option \<Rightarrow> string" where
  "getParsedType None = ''undefined''"
| "getParsedType (Some JNull) = ''null''"
| "getParsedType (Some (JBool b)) = ''boolean''"
| "getParsedType (Some (JNum n)) = ''number''"
| "getParsedType (Some (JStr s)) = ''string''"
| "getParsedType (Some (JArr xs)) = ''array''"
| "getParsedType (Some (JObj kvs)) = ''object''"

definition invalid_type :: "path_elem list \<Rightarrow> string \<Rightarrow> json option \<Rightarrow> zod_issue" where
  "invalid_type p expected v =
     ZodIssue p (if v = None then ''Required''
                 else ''Expected '' @ expected @ '', received '' @ getParsedType v)"

definition z_string :: "string zod" where
  "z_string p v = (case v of Some (JStr s) \<Rightarrow> Inr s | _ \<Rightarrow> Inl [invalid_type p ''string'' v])"

definition z_number :: "int zod" where
  "z_number p v = (case v of Some (JNum n) \<Rightarrow> Inr n | _ \<Rightarrow> Inl [invalid_type p ''number'' v])"

definition z_boolean :: "bool zod" where
  "z_boolean p v = (case v of Some (JBool b) \<Rightarrow> Inr b | _ \<Rightarrow> Inl [invalid_type p ''boolean'' v])"

text \<open>\<open>z.record(z.any())\<close>: any object passes, and its properties are copied into a fresh
  object; the key \<open>__proto__\<close> does not become a property of the copy.\<close>

definition z_record_any :: "object zod" where
  "z_record_any p v =
     (case v of Some (JObj kvs) \<Rightarrow> Inr (filter (\<lambda>(k, x). k \<noteq> ''__proto__'') kvs)
      | _ \<Rightarrow> Inl [invalid_type p ''object'' v])"

text \<open>\<open>.optional()\<close> lets \<open>undefined\<close> through; \<open>.optional().default(d)\<close> replaces it with
  \<open>d\<close>, which the schemas below choose to be a value of the inner type.\<close>

definition z_optional :: "'a zod \<Rightarrow> 'a option zod" where
  "z_optional inner p v =
     (case v of None \<Rightarrow> Inr None
      | Some x \<Rightarrow> (case inner p v of Inl issues \<Rightarrow> Inl issues | Inr y \<Rightarrow> Inr (Some y)))"

definition z_optional_default :: "'a zod \<Rightarrow> 'a \<Rightarrow> 'a zod" where
  "z_optional_default inner d p v = (case v of None \<Rightarrow> Inr d | Some x \<Rightarrow> inner p v)"

text \<open>Issues are collected over all the parts of a value, not only the first one.\<close>

definition both :: "zod_issue list + 'a \<Rightarrow> zod_issue list + 'b \<Rightarrow> zod_issue list + ('a \<times> 'b)" where
  "both a b =
     (case a of
        Inr x \<Rightarrow> (case b of Inr y \<Rightarrow> Inr (x, y) | Inl j \<Rightarrow> Inl j)
      | Inl i \<Rightarrow> (case b of Inr y \<Rightarrow> Inl i | Inl j \<Rightarrow> Inl (i @ j)))"

fun collect :: "(zod_issue list + 'a) list \<Rightarrow> zod_issue list + 'a list" where
  "collect [] = Inr []"
| "collect (r # rs) =
     (case both r (collect rs) of Inl issues \<Rightarrow> Inl issues | Inr (x, xs) \<Rightarrow> Inr (x # xs))"

definition z_array :: "'a zod \<Rightarrow> 'a list zod" where
  "z_array elem p v =
     (case v of
        Some (JArr xs) \<Rightarrow> collect (map (\<lambda>(i, x). elem (p @ [PIdx i]) (Some x)) (enumerate 0 xs))
      | _ \<Rightarrow> Inl [invalid_type p ''array'' v])"

text \<open>\<open>z.object({...})\<close>: the value must be an object; each field of the shape is then
  validated on the property of its key.\<close>

definition z_object :: "(object \<Rightarrow> zod_issue list + 'a) \<Rightarrow> json option \<Rightarrow> zod_issue list + 'a" where
  "z_object shape v =
     (case v of Some (JObj kvs) \<Rightarrow> shape kvs | _ \<Rightarrow> Inl [invalid_type [] ''object'' v])"

definition field :: "string \<Rightarrow> 'a zod \<Rightarrow> object \<Rightarrow> zod_issue list + 'a" where
  "field key z kvs = z [PKey key] (map_of kvs key)"

definition GetSiteSchema :: "json option \<Rightarrow> zod_issue list + string" where
  "GetSiteSchema = z_object (\<lambda>obj. field ''siteId'' z_string obj)"

definition GetCollectionsSchema :: "json option \<Rightarrow> zod_issue list + string" where
  "GetCollectionsSchema = z_object (\<lambda>obj. field ''siteId'' z_string obj)"

definition CreateCollectionItemSchema ::
  "json option \<Rightarrow> zod_issue list + (string \<times> string \<times> string option \<times> object option \<times> bool \<times> bool)" where
  "CreateCollectionItemSchema = z_object (\<lambda>obj.
     both (field ''collectionId'' z_string obj)
    (both (field ''name'' z_string obj)
    (both (field ''slug'' (z_optional z_string) obj)
    (both (field ''fieldData'' (z_optional z_record_any) obj)
    (both (field ''isDraft'' (z_optional_default z_boolean False) obj)
          (field ''isArchived'' (z_optional_default z_boolean False) obj))))))"

definition UpdateCollectionItemSchema ::
  "json option \<Rightarrow> zod_issue list +
     (string \<times> string \<times> string option \<times> string option \<times> object option \<times> bool option \<times> bool option)" where
  "UpdateCollectionItemSchema = z_object (\<lambda>obj.
     both (field ''collectionId'' z_string obj)
    (both (field ''itemId'' z_string obj)
    (both (field ''name'' (z_optional z_string) obj)
    (both (field ''slug'' (z_optional z_string) obj)
    (both (field ''fieldData'' (z_optional z_record_any) obj)
    (both (field ''isDraft'' (z_optional z_boolean) obj)
          (field ''isArchived'' (z_optional z_boolean) obj)))))))"

definition DeleteCollectionItemSchema :: "json option \<Rightarrow> zod_issue list + (string \<times> string)" where
  "DeleteCollectionItemSchema = z_object (\<lambda>obj.
     both (field ''collectionId'' z_string obj) (field ''itemId'' z_string obj))"

definition GetCollectionItemsSchema :: "json option \<Rightarrow> zod_issue list + (string \<times> int \<times> int)" where
  "GetCollectionItemsSchema = z_object (\<lambda>obj.
     both (field ''collectionId'' z_string obj)
    (both (field ''limit'' (z_optional_default z_number 10) obj)
          (field ''offset'' (z_optional_default z_number 0) obj)))"

text \<open>The schema written inline in the \<open>publish_collection_items\<close> case.\<close>

definition PublishCollectionItemsSchema :: "json option \<Rightarrow> zod_issue list + (string \<times> string list)" where
  "PublishCollectionItemsSchema = z_object (\<lambda>obj.
     both (field ''collectionId'' z_string obj) (field ''itemIds'' (z_array z_string) obj))"

section \<open>The API adapter\<close>

text \<open>
  An outbound request is what \<open>fetch\<close> is called with: the URL and the init object's
  method (\<open>None\<close> when the caller gives none), headers and body. The body field holds the
  value that \<open>JSON.stringify\<close> serialises. The remote side is a function from the request
  to either a network failure (the rejection's message) or a response; a response
  carries its status, its body as text, and the outcome of reading its body as JSON
  (the parse failure's message, or the value).
\<close>

record request =
  req_url :: string
  req_method :: "string option"
  req_headers :: "(string \<times> string) list"
  req_body :: "json option"

record response =
  resp_status :: nat
  resp_text :: string
  resp_json :: "string + json"

type_synonym fetch = "request \<Rightarrow> string + response"

record options =
  opt_method :: "string option"
  opt_body :: "json option"
  opt_headers :: "(string \<times> string) list option"

definition no_options :: options where
  "no_options = \<lparr>opt_method = None, opt_body = None, opt_headers = None\<rparr>"

text \<open>What the \<open>try\<close> block can throw: a validation error with its issues, a protocol
  error, or a plain \<open>Error\<close> with its message.\<close>

datatype error_code = MethodNotFound | InvalidParams | InternalError

datatype mcp_error = Mcp (err_code: error_code) (err_message: string)

datatype thrown = ZodError "zod_issue list" | McpThrown mcp_error | Error string

fun error_code_number :: "error_code \<Rightarrow> int" where
  "error_code_number MethodNotFound = - 32601"
| "error_code_number InvalidParams = - 32602"
| "error_code_number InternalError = - 32603"

text \<open>The protocol library's error constructor prefixes the message with the code.\<close>

definition McpError :: "error_code \<Rightarrow> string \<Rightarrow> mcp_error" where
  "McpError c m = Mcp c (''MCP error '' @ show_int (error_code_number c) @ '': '' @ m)"

definition WEBFLOW_API_BASE :: string where
  "WEBFLOW_API_BASE = ''https://api.webflow.com/v2''"

record WebflowAPI =
  api_headers :: "(string \<times> string) list"

definition new_WebflowAPI :: "string \<Rightarrow> WebflowAPI" where
  "new_WebflowAPI apiToken =
     \<lparr>api_headers = [(''Authorization'', ''Bearer '' @ apiToken),
                     (''Content-Type'', ''application/json'')]\<rparr>"

definition response_ok :: "response \<Rightarrow> bool" where
  "response_ok r = (200 \<le> resp_status r \<and> resp_status r \<le> 299)"

text \<open>\<open>makeRequest\<close> returns the request it sent together with its outcome.\<close>

definition makeRequest :: "fetch \<Rightarrow> WebflowAPI \<Rightarrow> string \<Rightarrow> options \<Rightarrow> request \<times> (thrown + json)" where
  "makeRequest fetch api endpoint opts =
     (let url = WEBFLOW_API_BASE @ endpoint;
          req = \<lparr>req_url = url,
                 req_method = opt_method opts,
                 req_headers = spread_opt (spread [] (api_headers api)) (opt_headers opts),
                 req_body = opt_body opts\<rparr>
      in (req,
          case fetch req of
            Inl failure \<Rightarrow> Inl (Error failure)
          | Inr response \<Rightarrow>
              if \<not> response_ok response
              then Inl (Error (''Webflow API error ('' @ show_nat (resp_status response) @ ''): ''
                                 @ resp_text response))
              else (case resp_json response of
                      Inl failure \<Rightarrow> Inl (Error failure)
                    | Inr result \<Rightarrow> Inr result)))"

definition getSites :: "fetch \<Rightarrow> WebflowAPI \<Rightarrow> request \<times> (thrown + json)" where
  "getSites fetch api = makeRequest fetch api ''/sites'' no_options"

definition getSite :: "fetch \<Rightarrow> WebflowAPI \<Rightarrow> string \<Rightarrow> request \<times> (thrown + json)" where
  "getSite fetch api siteId = makeRequest fetch api (''/sites/'' @ siteId) no_options"

definition getCollections :: "fetch \<Rightarrow> WebflowAPI \<Rightarrow> string \<Rightarrow> request \<times> (thrown + json)" where
  "getCollections fetch api siteId =
     makeRequest fetch api (''/sites/'' @ siteId @ ''/collections'') no_options"

text \<open>The parameters \<open>limit = 10\<close> and \<open>offset = 0\<close> take their defaults when the caller
  passes \<open>undefined\<close>.\<close>

definition getCollectionItems ::
  "fetch \<Rightarrow> WebflowAPI \<Rightarrow> string \<Rightarrow> int option \<Rightarrow> int option \<Rightarrow> request \<times> (thrown + json)" where
  "getCollectionItems fetch api collectionId limit offset =
     (let l = (case limit of None \<Rightarrow> 10 | Some n \<Rightarrow> n);
          off = (case offset of None \<Rightarrow> 0 | Some n \<Rightarrow> n)
      in makeRequest fetch api
           (''/collections/'' @ collectionId @ ''/items?limit='' @ show_int l
              @ ''&offset='' @ show_int off)
           no_options)"

definition createCollectionItem :: "fetch \<Rightarrow> WebflowAPI \<Rightarrow> string \<Rightarrow> json \<Rightarrow> request \<times> (thrown + json)" where
  "createCollectionItem fetch api collectionId data =
     makeRequest fetch api (''/collections/'' @ collectionId @ ''/items'')
       \<lparr>opt_method = Some ''POST'', opt_body = Some data, opt_headers = None\<rparr>"

definition updateCollectionItem ::
  "fetch \<Rightarrow> WebflowAPI \<Rightarrow> string \<Rightarrow> string \<Rightarrow> json \<Rightarrow> request \<times> (thrown + json)" where
  "updateCollectionItem fetch api collectionId itemId data =
     makeRequest fetch api (''/collections/'' @ collectionId @ ''/items/'' @ itemId)
       \<lparr>opt_method = Some ''PATCH'', opt_body = Some data, opt_headers = None\<rparr>"

definition deleteCollectionItem :: "fetch \<Rightarrow> WebflowAPI \<Rightarrow> string \<Rightarrow> string \<Rightarrow> request \<times> (thrown + json)" where
  "deleteCollectionItem fetch api collectionId itemId =
     makeRequest fetch api (''/collections/'' @ collectionId @ ''/items/'' @ itemId)
       \<lparr>opt_method = Some ''DELETE'', opt_body = None, opt_headers = None\<rparr>"

definition publishCollectionItems ::
  "fetch \<Rightarrow> WebflowAPI \<Rightarrow> string \<Rightarrow> string list \<Rightarrow> request \<times> (thrown + json)" where
  "publishCollectionItems fetch api collectionId itemIds =
     makeRequest fetch api (''/collections/'' @ collectionId @ ''/items/publish'')
       \<lparr>opt_method = Some ''POST'',
        opt_body = Some (JObj [(''itemIds'', JArr (map JStr itemIds))]),
        opt_headers = None\<rparr>"

section \<open>The tool catalogue\<close>

record tool_descriptor =
  tool_name :: string
  description :: string
  inputSchema :: json

definition tools :: "tool_descriptor list" where
  "tools =
     [\<lparr>tool_name = ''get_sites'',
       description = ''Retrieve a list of all Webflow sites accessible to the authenticated user'',
       inputSchema = JObj
         [(''type'', JStr ''object''),
          (''properties'', JObj
             []),
          (''required'', JArr [])]\<rparr>,
      \<lparr>tool_name = ''get_site'',
       description = ''Retrieve detailed information about a specific Webflow site by ID'',
       inputSchema = JObj
         [(''type'', JStr ''object''),
          (''properties'', JObj
             [(''siteId'', JObj [(''type'', JStr ''string''), (''description'', JStr ''The unique identifier of the Webflow site'')])]),
          (''required'', JArr [JStr ''siteId''])]\<rparr>,
      \<lparr>tool_name = ''get_collections'',
       description = ''Retrieve a list of all CMS collections for a specific Webflow site'',
       inputSchema = JObj
         [(''type'', JStr ''object''),
          (''properties'', JObj
             [(''siteId'', JObj [(''type'', JStr ''string''), (''description'', JStr ''The unique identifier of the Webflow site'')])]),
          (''required'', JArr [JStr ''siteId''])]\<rparr>,
      \<lparr>tool_name = ''get_collection_items'',
       description = ''Retrieve items from a specific collection'',
       inputSchema = JObj
         [(''type'', JStr ''object''),
          (''properties'', JObj
             [(''collectionId'', JObj [(''type'', JStr ''string''), (''description'', JStr ''The unique identifier of the collection'')]),
              (''limit'', JObj [(''type'', JStr ''number''), (''description'', JStr ''Number of items to retrieve (default: 10)''), (''default'', JNum 10)]),
              (''offset'', JObj [(''type'', JStr ''number''), (''description'', JStr ''Number of items to skip (default: 0)''), (''default'', JNum 0)])]),
          (''required'', JArr [JStr ''collectionId''])]\<rparr>,
      \<lparr>tool_name = ''create_collection_item'',
       description = ''Create a new item in a collection'',
       inputSchema = JObj
         [(''type'', JStr ''object''),
          (''properties'', JObj
             [(''collectionId'', JObj [(''type'', JStr ''string''), (''description'', JStr ''The unique identifier of the collection'')]),
              (''name'', JObj [(''type'', JStr ''string''), (''description'', JStr ''The name of the collection item'')]),
              (''slug'', JObj [(''type'', JStr ''string''), (''description'', JStr ''The slug for the item (optional, will be auto-generated if not provided)'')]),
              (''fieldData'', JObj [(''type'', JStr ''object''), (''description'', JStr ''Additional field data for the collection item'')]),
              (''isDraft'', JObj [(''type'', JStr ''boolean''), (''description'', JStr ''Whether the item should be created as a draft (default: false)''), (''default'', JBool False)]),
              (''isArchived'', JObj [(''type'', JStr ''boolean''), (''description'', JStr ''Whether the item should be archived (default: false)''), (''default'', JBool False)])]),
          (''required'', JArr [JStr ''collectionId'', JStr ''name''])]\<rparr>,
      \<lparr>tool_name = ''update_collection_item'',
       description = ''Update an existing collection item'',
       inputSchema = JObj
         [(''type'', JStr ''object''),
          (''properties'', JObj
             [(''collectionId'', JObj [(''type'', JStr ''string''), (''description'', JStr ''The unique identifier of the collection'')]),
              (''itemId'', JObj [(''type'', JStr ''string''), (''description'', JStr ''The unique identifier of the item to update'')]),
              (''name'', JObj [(''type'', JStr ''string''), (''description'', JStr ''The new name of the collection item'')]),
              (''slug'', JObj [(''type'', JStr ''string''), (''description'', JStr ''The new slug for the item'')]),
              (''fieldData'', JObj [(''type'', JStr ''object''), (''description'', JStr ''Updated field data for the collection item'')]),
              (''isDraft'', JObj [(''type'', JStr ''boolean''), (''description'', JStr ''Whether the item should be a draft'')]),
              (''isArchived'', JObj [(''type'', JStr ''boolean''), (''description'', JStr ''Whether the item should be archived'')])]),
          (''required'', JArr [JStr ''collectionId'', JStr ''itemId''])]\<rparr>,
      \<lparr>tool_name = ''delete_collection_item'',
       description = ''Delete a collection item'',
       inputSchema = JObj
         [(''type'', JStr ''object''),
          (''properties'', JObj
             [(''collectionId'', JObj [(''type'', JStr ''string''), (''description'', JStr ''The unique identifier of the collection'')]),
              (''itemId'', JObj [(''type'', JStr ''string''), (''description'', JStr ''The unique identifier of the item to delete'')])]),
          (''required'', JArr [JStr ''collectionId'', JStr ''itemId''])]\<rparr>,
      \<lparr>tool_name = ''publish_collection_items'',
       description = ''Publish one or more collection items'',
       inputSchema = JObj
         [(''type'', JStr ''object''),
          (''properties'', JObj
             [(''collectionId'', JObj [(''type'', JStr ''string''), (''description'', JStr ''The unique identifier of the collection'')]),
              (''itemIds'', JObj [(''type'', JStr ''array''), (''items'', JObj [(''type'', JStr ''string'')]), (''description'', JStr ''Array of item IDs to publish'')])]),
          (''required'', JArr [JStr ''collectionId'', JStr ''itemIds''])]\<rparr>]"

text \<open>The handler of the list-tools request returns the catalogue.\<close>

definition list_tools :: "tool_descriptor list" where
  "list_tools = tools"

section \<open>The call-tool handler\<close>

text \<open>
  A successful call returns one text block: a banner (empty for the read operations)
  followed, when a value is given, by that value pretty-printed with
  \<open>JSON.stringify(value, null, 2)\<close>.
\<close>

datatype content = TextContent string "json option"

text \<open>The characters that precede the success messages in the source file.\<close>

definition check_mark :: string where
  "check_mark = [CHR 0xC3, CHR 0xA2, CHR 0xC5, CHR 0x93, CHR 0xE2, CHR 0x80, CHR 0xA6]"

text \<open>The case labels of the \<open>switch\<close> over the tool name; \<open>None\<close> is the default case.\<close>

datatype tool_case =
    GetSites | GetSite | GetCollections | GetCollectionItems
  | CreateCollectionItem | UpdateCollectionItem | DeleteCollectionItem | PublishCollectionItems

definition dispatch :: "string \<Rightarrow> tool_case option" where
  "dispatch name =
     (if name = ''get_sites'' then Some GetSites
      else if name = ''get_site'' then Some GetSite
      else if name = ''get_collections'' then Some GetCollections
      else if name = ''get_collection_items'' then Some GetCollectionItems
      else if name = ''create_collection_item'' then Some CreateCollectionItem
      else if name = ''update_collection_item'' then Some UpdateCollectionItem
      else if name = ''delete_collection_item'' then Some DeleteCollectionItem
      else if name = ''publish_collection_items'' then Some PublishCollectionItems
      else None)"

text \<open>
  A case body returns the requests it sent (at most one) and either what it threw or its
  content. \<open>validated\<close> is \<open>Schema.parse(args)\<close> followed by the rest of the case;
  \<open>respond\<close> awaits an adapter call and wraps its result.
\<close>

type_synonym outcome = "request list \<times> (thrown + content)"

definition validated :: "zod_issue list + 'a \<Rightarrow> ('a \<Rightarrow> outcome) \<Rightarrow> outcome" where
  "validated parsed rest =
     (case parsed of Inl issues \<Rightarrow> ([], Inl (ZodError issues)) | Inr params \<Rightarrow> rest params)"

definition respond :: "request \<times> (thrown + json) \<Rightarrow> (json \<Rightarrow> content) \<Rightarrow> outcome" where
  "respond call wrap =
     (case call of (req, r) \<Rightarrow>
        ([req], case r of Inl e \<Rightarrow> Inl e | Inr result \<Rightarrow> Inr (wrap result)))"

definition case_get_sites :: "fetch \<Rightarrow> WebflowAPI \<Rightarrow> outcome" where
  "case_get_sites fetch api =
     respond (getSites fetch api) (\<lambda>result. TextContent [] (Some result))"

definition case_get_site :: "fetch \<Rightarrow> WebflowAPI \<Rightarrow> json option \<Rightarrow> outcome" where
  "case_get_site fetch api args =
     validated (GetSiteSchema args) (\<lambda>siteId.
       respond (getSite fetch api siteId) (\<lambda>result. TextContent [] (Some result)))"

definition case_get_collections :: "fetch \<Rightarrow> WebflowAPI \<Rightarrow> json option \<Rightarrow> outcome" where
  "case_get_collections fetch api args =
     validated (GetCollectionsSchema args) (\<lambda>siteId.
       respond (getCollections fetch api siteId) (\<lambda>result. TextContent [] (Some result)))"

definition case_get_collection_items :: "fetch \<Rightarrow> WebflowAPI \<Rightarrow> json option \<Rightarrow> outcome" where
  "case_get_collection_items fetch api args =
     validated (GetCollectionItemsSchema args) (\<lambda>(collectionId, limit, offset).
       respond (getCollectionItems fetch api collectionId (Some limit) (Some offset))
         (\<lambda>result. TextContent [] (Some result)))"

definition case_create_collection_item :: "fetch \<Rightarrow> WebflowAPI \<Rightarrow> json option \<Rightarrow> outcome" where
  "case_create_collection_item fetch api args =
     validated (CreateCollectionItemSchema args)
       (\<lambda>(collectionId, name, slug, fieldData, isDraft, isArchived).
          respond
            (createCollectionItem fetch api collectionId
               (JObj (itemData name slug fieldData isDraft isArchived)))
            (\<lambda>result.
               TextContent (check_mark @ '' Successfully created collection item!'' @ [CHR 10, CHR 10])
                 (Some result)))"

definition case_update_collection_item :: "fetch \<Rightarrow> WebflowAPI \<Rightarrow> json option \<Rightarrow> outcome" where
  "case_update_collection_item fetch api args =
     validated (UpdateCollectionItemSchema args)
       (\<lambda>(collectionId, itemId, name, slug, fieldData, isDraft, isArchived).
          respond
            (updateCollectionItem fetch api collectionId itemId
               (JObj (updateData name slug fieldData isDraft isArchived)))
            (\<lambda>result.
               TextContent (check_mark @ '' Successfully updated collection item!'' @ [CHR 10, CHR 10])
                 (Some result)))"

definition case_delete_collection_item :: "fetch \<Rightarrow> WebflowAPI \<Rightarrow> json option \<Rightarrow> outcome" where
  "case_delete_collection_item fetch api args =
     validated (DeleteCollectionItemSchema args) (\<lambda>(collectionId, itemId).
       respond (deleteCollectionItem fetch api collectionId itemId)
         (\<lambda>result.
            TextContent (check_mark @ '' Successfully deleted collection item '' @ itemId) None))"

definition case_publish_collection_items :: "fetch \<Rightarrow> WebflowAPI \<Rightarrow> json option \<Rightarrow> outcome" where
  "case_publish_collection_items fetch api args =
     validated (PublishCollectionItemsSchema args) (\<lambda>(collectionId, itemIds).
       respond (publishCollectionItems fetch api collectionId itemIds)
         (\<lambda>result.
            TextContent
              (check_mark @ '' Successfully published '' @ show_nat (length itemIds)
                 @ '' item(s)!'' @ [CHR 10, CHR 10])
              (Some result)))"

definition switch :: "fetch \<Rightarrow> WebflowAPI \<Rightarrow> string \<Rightarrow> json option \<Rightarrow> outcome" where
  "switch fetch api name args =
     (case dispatch name of
        Some GetSites \<Rightarrow> case_get_sites fetch api
      | Some GetSite \<Rightarrow> case_get_site fetch api args
      | Some GetCollections \<Rightarrow> case_get_collections fetch api args
      | Some GetCollectionItems \<Rightarrow> case_get_collection_items fetch api args
      | Some CreateCollectionItem \<Rightarrow> case_create_collection_item fetch api args
      | Some UpdateCollectionItem \<Rightarrow> case_update_collection_item fetch api args
      | Some DeleteCollectionItem \<Rightarrow> case_delete_collection_item fetch api args
      | Some PublishCollectionItems \<Rightarrow> case_publish_collection_items fetch api args
      | None \<Rightarrow> ([], Inl (McpThrown (McpError MethodNotFound (''Unknown tool: '' @ name)))))"

text \<open>The \<open>catch\<close> block: a validation error becomes an invalid-parameters error that lists
  every issue; anything else thrown becomes an internal error.\<close>

definition path_elem_string :: "path_elem \<Rightarrow> string" where
  "path_elem_string e = (case e of PKey k \<Rightarrow> k | PIdx i \<Rightarrow> show_nat i)"

definition issue_line :: "zod_issue \<Rightarrow> string" where
  "issue_line e = join ''.'' (map path_elem_string (issue_path e)) @ '': '' @ issue_message e"

definition catch :: "string \<Rightarrow> thrown \<Rightarrow> mcp_error" where
  "catch name error =
     (case error of
        ZodError errors \<Rightarrow>
          McpError InvalidParams (''Invalid parameters: '' @ join '', '' (map issue_line errors))
      | McpThrown e \<Rightarrow>
          McpError InternalError (''Error executing '' @ name @ '': '' @ err_message e)
      | Error m \<Rightarrow>
          McpError InternalError (''Error executing '' @ name @ '': '' @ m))"

text \<open>The handler: the credential is the one read at startup; the result is the list of
  requests sent and either the protocol error handed to the caller or the content.\<close>

definition call_tool :: "fetch \<Rightarrow> string \<Rightarrow> string \<Rightarrow> json option \<Rightarrow> request list \<times> (mcp_error + content)" where
  "call_tool fetch apiToken name args =
     (case switch fetch (new_WebflowAPI apiToken) name args of
        (sent, r) \<Rightarrow> (sent, case r of Inl error \<Rightarrow> Inl (catch name error) | Inr c \<Rightarrow> Inr c))"

text \<open>The issues that the schema of a case reports on the arguments; the \<open>get_sites\<close>
  case parses nothing.\<close>

definition issues_of :: "zod_issue list + 'a \<Rightarrow> zod_issue list" where
  "issues_of r = (case r of Inl issues \<Rightarrow> issues | Inr x \<Rightarrow> [])"

fun schema_issues :: "tool_case \<Rightarrow> json option \<Rightarrow> zod_issue list" where
  "schema_issues GetSites args = []"
| "schema_issues GetSite args = issues_of (GetSiteSchema args)"
| "schema_issues GetCollections args = issues_of (GetCollectionsSchema args)"
| "schema_issues GetCollectionItems args = issues_of (GetCollectionItemsSchema args)"
| "schema_issues CreateCollectionItem args = issues_of (CreateCollectionItemSchema args)"
| "schema_issues UpdateCollectionItem args = issues_of (UpdateCollectionItemSchema args)"
| "schema_issues DeleteCollectionItem args = issues_of (DeleteCollectionItemSchema args)"
| "schema_issues PublishCollectionItems args = issues_of (PublishCollectionItemsSchema args)"

section \<open>Objects and spreading\<close>

lemma map_of_spread: "map_of (spread dst src) = map_of dst ++ map_of (rev src)"
  unfolding spread_def
proof (induction src arbitrary: dst)
  case Nil
  show ?case by simp
next
  case (Cons p src)
  obtain k v where p: "p = (k, v)" by (cases p)
  show ?case
    by (rule ext) (simp add: p Cons.IH update_conv' map_add_def split: option.splits)
qed

lemma map_of_rev_distinct: "distinct (map fst xs) \<Longrightarrow> map_of (rev xs) = map_of xs"
proof (induction xs)
  case Nil
  show ?case by simp
next
  case (Cons p xs)
  obtain k v where p: "p = (k, v)" by (cases p)
  from Cons.prems have fresh: "map_of xs k = None" and d: "distinct (map fst xs)"
    by (auto simp: p map_of_eq_None_iff)
  show ?case
    by (rule ext) (simp add: p Cons.IH [OF d] map_add_def fresh split: option.splits)
qed

lemma spread_lookup:
  assumes "distinct (map fst src)" and "map_of src k = Some v"
  shows "map_of (spread dst src) k = Some v"
  using assms by (simp add: map_of_spread map_of_rev_distinct map_add_def)



section \<open>The adapter and the handler, step by step\<close>

lemma makeRequest_sent:
  "fst (makeRequest fetch api endpoint opts) =
     \<lparr>req_url = WEBFLOW_API_BASE @ endpoint, req_method = opt_method opts,
      req_headers = spread_opt (spread [] (api_headers api)) (opt_headers opts),
      req_body = opt_body opts\<rparr>"
  by (simp add: makeRequest_def Let_def)

lemma makeRequest_not_ok:
  assumes "fetch (fst (makeRequest fetch api endpoint opts)) = Inr resp" and "\<not> response_ok resp"
  shows "snd (makeRequest fetch api endpoint opts) =
           Inl (Error (''Webflow API error ('' @ show_nat (resp_status resp) @ ''): '' @ resp_text resp))"
  using assms by (simp add: makeRequest_def Let_def)

lemma startup_headers:
  "spread [] (api_headers (new_WebflowAPI tok)) =
     [(''Authorization'', ''Bearer '' @ tok), (''Content-Type'', ''application/json'')]"
  by (simp add: spread_def new_WebflowAPI_def)

lemma respond_sent: "fst (respond call wrap) = [fst call]"
  by (simp add: respond_def split: prod.splits)

lemma respond_thrown: "snd call = Inl e \<Longrightarrow> snd (respond call wrap) = Inl e"
  by (cases call) (simp add: respond_def)

lemmas api_defs = getSites_def getSite_def getCollections_def getCollectionItems_def
  createCollectionItem_def updateCollectionItem_def deleteCollectionItem_def
  publishCollectionItems_def

lemmas case_defs = case_get_sites_def case_get_site_def case_get_collections_def
  case_get_collection_items_def case_create_collection_item_def
  case_update_collection_item_def case_delete_collection_item_def
  case_publish_collection_items_def

lemma switch_headers:
  assumes "req \<in> set (fst (switch fetch (new_WebflowAPI tok) name args))"
  shows "req_headers req =
           [(''Authorization'', ''Bearer '' @ tok), (''Content-Type'', ''application/json'')]"
  using assms
  by (auto simp: switch_def case_defs validated_def respond_sent api_defs makeRequest_sent
        startup_headers spread_opt_def no_options_def Let_def
      split: option.splits tool_case.splits sum.splits prod.splits)

lemma switch_not_ok:
  assumes "fst (switch fetch api name args) = [req]" and "fetch req = Inr resp"
    and "\<not> response_ok resp"
  shows "snd (switch fetch api name args) =
           Inl (Error (''Webflow API error ('' @ show_nat (resp_status resp) @ ''): '' @ resp_text resp))"
  using assms
  by (auto simp: switch_def case_defs validated_def respond_sent api_defs Let_def
      simp del: append.simps
      intro!: respond_thrown makeRequest_not_ok
      split: option.splits tool_case.splits sum.splits prod.splits)

section \<open>Unfolding validation and the handler\<close>

lemma both_Inr_iff: "both a b = Inr (x, y) \<longleftrightarrow> a = Inr x \<and> b = Inr y"
  by (auto simp: both_def split: sum.splits)

lemmas zod_defs = z_object_def field_def z_string_def z_number_def z_boolean_def
  z_record_any_def z_optional_def z_optional_default_def z_array_def invalid_type_def

lemmas schema_defs = GetSiteSchema_def GetCollectionsSchema_def CreateCollectionItemSchema_def
  UpdateCollectionItemSchema_def DeleteCollectionItemSchema_def GetCollectionItemsSchema_def
  PublishCollectionItemsSchema_def

lemma call_tool_sent: "fst (call_tool fetch tok name args) = fst (switch fetch (new_WebflowAPI tok) name args)"
  by (simp add: call_tool_def split: prod.splits)

lemma call_tool_result:
  "snd (call_tool fetch tok name args) =
     (case snd (switch fetch (new_WebflowAPI tok) name args) of
        Inl error \<Rightarrow> Inl (catch name error) | Inr c \<Rightarrow> Inr c)"
  by (simp add: call_tool_def split: prod.splits)

lemma dispatch_simps:
  "dispatch ''get_sites'' = Some GetSites"
  "dispatch ''get_site'' = Some GetSite"
  "dispatch ''get_collections'' = Some GetCollections"
  "dispatch ''get_collection_items'' = Some GetCollectionItems"
  "dispatch ''create_collection_item'' = Some CreateCollectionItem"
  "dispatch ''update_collection_item'' = Some UpdateCollectionItem"
  "dispatch ''delete_collection_item'' = Some DeleteCollectionItem"
  "dispatch ''publish_collection_items'' = Some PublishCollectionItems"
  by (simp_all add: dispatch_def)

lemma mcp_codes:
  "McpError MethodNotFound m = Mcp MethodNotFound (''MCP error -32601: '' @ m)"
  "McpError InvalidParams m = Mcp InvalidParams (''MCP error -32602: '' @ m)"
  "McpError InternalError m = Mcp InternalError (''MCP error -32603: '' @ m)"
  by (simp_all add: McpError_def show_int_def show_nat.simps digit_char_def)

lemma derived_slug_hello_world: "derived_slug ''Hello World!'' = ''hello-world-''"
  by code_simp

section \<open>The derived slug\<close>

text \<open>
  Against claim C1 as stated: for the name \<open>Hello World!\<close> with no slug and no fieldData, the
  slug written into fieldData is not \<open>hello-world\<close>; it is \<open>hello-world-\<close>.
\<close>

theorem hello_world_slug_counterexample:
  "map_of (create_fieldData ''Hello World!'' None None) ''slug'' \<noteq> Some (JStr ''hello-world'') \<and>
   map_of (create_fieldData ''Hello World!'' None None) ''slug'' = Some (JStr ''hello-world-'')"
  by (simp add: create_fieldData_def spread_opt_def or_else_def derived_slug_hello_world)

text \<open>
  Claim C1, amended: for the arguments \<open>{collectionId: c, name: "Hello World!"}\<close> the
  \<open>create_collection_item\<close> case sends one POST request whose payload has
  \<open>fieldData.slug\<close> equal to \<open>hello-world-\<close>. The name is lowercased and every run of
  characters outside \<open>a-z0-9\<close> becomes one hyphen; the run made of the final \<open>!\<close> becomes
  a hyphen too, and nothing trims it.
\<close>

theorem hello_world_slug_trailing_hyphen:
  "fst (call_tool fetch tok ''create_collection_item''
          (Some (JObj [(''collectionId'', JStr c), (''name'', JStr ''Hello World!'')]))) =
     [\<lparr>req_url = WEBFLOW_API_BASE @ ''/collections/'' @ c @ ''/items'',
       req_method = Some ''POST'',
       req_headers = [(''Authorization'', ''Bearer '' @ tok), (''Content-Type'', ''application/json'')],
       req_body = Some (JObj
         [(''fieldData'', JObj [(''name'', JStr ''Hello World!''), (''slug'', JStr ''hello-world-'')]),
          (''isDraft'', JBool False),
          (''isArchived'', JBool False)])\<rparr>]"
  by (simp add: call_tool_sent switch_def dispatch_simps case_create_collection_item_def
        CreateCollectionItemSchema_def zod_defs both_def validated_def respond_sent
        createCollectionItem_def makeRequest_sent startup_headers spread_opt_def
        itemData_def create_fieldData_def or_else_def derived_slug_hello_world)

section \<open>Unknown tool names\<close>

text \<open>
  Claim C2 says that a tool name outside the catalogue yields a method-not-found error. The
  default case does throw one, but it throws inside the \<open>try\<close> block, and the \<open>catch\<close>
  block wraps everything that is not a validation error into an internal error: for the
  name \<open>rename_site\<close> the caller receives code \<open>InternalError\<close>, with the method-not-found
  text inside the message.
\<close>

theorem unknown_tool_internal_error:
  "call_tool fetch tok ''rename_site'' args =
     ([], Inl (Mcp InternalError
        ''MCP error -32603: Error executing rename_site: MCP error -32601: Unknown tool: rename_site''))"
  by (simp add: call_tool_def switch_def dispatch_def catch_def mcp_codes)

lemma unknown_tool_general:
  "dispatch name = None \<Longrightarrow>
   call_tool fetch tok name args =
     ([], Inl (Mcp InternalError
        (''MCP error -32603: Error executing '' @ name @ '': MCP error -32601: Unknown tool: '' @ name)))"
  by (simp add: call_tool_def switch_def catch_def mcp_codes)

section \<open>Catalogue and dispatch\<close>

text \<open>
  Claim C8: the names that the switch dispatches (those that do not fall to the default
  case) are exactly the names of the descriptors that the list-tools request returns;
  there are eight descriptors, with pairwise different names.
\<close>

theorem catalogue_matches_dispatch:
  "{name. dispatch name \<noteq> None} = set (map tool_name list_tools) \<and>
   length list_tools = 8 \<and> distinct (map tool_name list_tools)"
  by (auto simp: list_tools_def tools_def dispatch_def split: if_splits)

section \<open>Headers of outbound requests\<close>

text \<open>
  Claim C9: whatever the tool name and the arguments, every request that a call sends
  carries exactly the two headers set at construction: the bearer Authorization header
  built from the startup credential and the JSON Content-Type header.
\<close>

theorem same_headers_on_every_request:
  "\<forall>req \<in> set (fst (call_tool fetch tok name args)).
     req_headers req =
       [(''Authorization'', ''Bearer '' @ tok), (''Content-Type'', ''application/json'')]"
  by (simp add: call_tool_sent switch_headers)

text \<open>The headers of the DELETE request of a \<open>delete_collection_item\<close> call.\<close>

theorem same_headers_on_every_request_witness:
  "fst (call_tool (\<lambda>req. Inl ''socket hang up'') ''secret'' ''delete_collection_item''
          (Some (JObj [(''collectionId'', JStr ''c1''), (''itemId'', JStr ''i1'')]))) =
     [\<lparr>req_url = ''https://api.webflow.com/v2/collections/c1/items/i1'',
       req_method = Some ''DELETE'',
       req_headers = [(''Authorization'', ''Bearer secret''), (''Content-Type'', ''application/json'')],
       req_body = None\<rparr>] \<and>
   list_all (\<lambda>req. req_headers req =
               [(''Authorization'', ''Bearer secret''), (''Content-Type'', ''application/json'')])
     (fst (call_tool (\<lambda>req. Inl ''socket hang up'') ''secret'' ''delete_collection_item''
          (Some (JObj [(''collectionId'', JStr ''c1''), (''itemId'', JStr ''i1'')]))))"
proof -
  let ?args = "Some (JObj [(''collectionId'', JStr ''c1''), (''itemId'', JStr ''i1'')])"
  have sent: "fst (call_tool (\<lambda>req. Inl ''socket hang up'') ''secret'' ''delete_collection_item'' ?args) =
     [\<lparr>req_url = ''https://api.webflow.com/v2/collections/c1/items/i1'',
       req_method = Some ''DELETE'',
       req_headers = [(''Authorization'', ''Bearer secret''), (''Content-Type'', ''application/json'')],
       req_body = None\<rparr>]"
    by (simp add: call_tool_sent switch_def dispatch_simps case_delete_collection_item_def
          DeleteCollectionItemSchema_def zod_defs both_def validated_def respond_sent
          deleteCollectionItem_def makeRequest_sent startup_headers spread_opt_def
          WEBFLOW_API_BASE_def)
  from same_headers_on_every_request
    [of "\<lambda>req. Inl ''socket hang up''" "''secret''" "''delete_collection_item''" ?args]
  show ?thesis
    unfolding sent by (simp add: list_all_iff)
qed

section \<open>Validated parameters and the request they lead to\<close>


lemma update_schema_Inr:
  "UpdateCollectionItemSchema (Some (JObj obj)) = Inr (c, i, n, s, f, d, a) \<longleftrightarrow>
     field ''collectionId'' z_string obj = Inr c \<and>
     field ''itemId'' z_string obj = Inr i \<and>
     field ''name'' (z_optional z_string) obj = Inr n \<and>
     field ''slug'' (z_optional z_string) obj = Inr s \<and>
     field ''fieldData'' (z_optional z_record_any) obj = Inr f \<and>
     field ''isDraft'' (z_optional z_boolean) obj = Inr d \<and>
     field ''isArchived'' (z_optional z_boolean) obj = Inr a"
  by (simp add: UpdateCollectionItemSchema_def z_object_def both_Inr_iff)

lemma items_schema_Inr:
  "GetCollectionItemsSchema (Some (JObj obj)) = Inr (c, l, off) \<longleftrightarrow>
     field ''collectionId'' z_string obj = Inr c \<and>
     field ''limit'' (z_optional_default z_number 10) obj = Inr l \<and>
     field ''offset'' (z_optional_default z_number 0) obj = Inr off"
  by (simp add: GetCollectionItemsSchema_def z_object_def both_Inr_iff)

lemma field_absent:
  "map_of obj key = None \<Longrightarrow> field key (z_optional z) obj = Inr None"
  "map_of obj key = None \<Longrightarrow> field key (z_optional_default z d) obj = Inr d"
  by (simp_all add: field_def z_optional_def z_optional_default_def)

lemma field_string: "map_of obj key = Some (JStr s) \<Longrightarrow> field key z_string obj = Inr s"
  by (simp add: field_def z_string_def)




lemma update_sent:
  assumes "UpdateCollectionItemSchema args = Inr (c, i, n, s, f, d, a)"
  shows "fst (call_tool fetch tok ''update_collection_item'' args) =
     [\<lparr>req_url = WEBFLOW_API_BASE @ ''/collections/'' @ c @ ''/items/'' @ i,
       req_method = Some ''PATCH'',
       req_headers = [(''Authorization'', ''Bearer '' @ tok), (''Content-Type'', ''application/json'')],
       req_body = Some (JObj (updateData n s f d a))\<rparr>]"
  using assms
  by (simp add: call_tool_sent switch_def dispatch_simps case_update_collection_item_def
        validated_def respond_sent updateCollectionItem_def makeRequest_sent startup_headers
        spread_opt_def)

lemma items_sent:
  assumes "GetCollectionItemsSchema args = Inr (c, l, off)"
  shows "fst (call_tool fetch tok ''get_collection_items'' args) =
     [\<lparr>req_url = WEBFLOW_API_BASE @ ''/collections/'' @ c @ ''/items?limit='' @ show_int l
                   @ ''&offset='' @ show_int off,
       req_method = None,
       req_headers = [(''Authorization'', ''Bearer '' @ tok), (''Content-Type'', ''application/json'')],
       req_body = None\<rparr>]"
  using assms
  by (simp add: call_tool_sent switch_def dispatch_simps case_get_collection_items_def
        validated_def respond_sent getCollectionItems_def makeRequest_sent startup_headers
        spread_opt_def no_options_def)

lemma update_not_sent:
  assumes "UpdateCollectionItemSchema args = Inl issues"
  shows "fst (call_tool fetch tok ''update_collection_item'' args) = []"
  using assms
  by (simp add: call_tool_sent switch_def dispatch_simps case_update_collection_item_def
        validated_def)

lemma updateData_no_fieldData:
  "\<not> truthy n \<Longrightarrow> \<not> truthy s \<Longrightarrow> map_of (updateData n s None d a) ''fieldData'' = None"
  by (cases d; cases a) (simp_all add: updateData_def)

lemma updateData_no_isDraft: "map_of (updateData n s f None a) ''isDraft'' = None"
  by (cases a) (simp_all add: updateData_def)

lemma updateData_no_isArchived: "map_of (updateData n s f d None) ''isArchived'' = None"
  by (cases d) (simp_all add: updateData_def)

lemma updateData_isDraft: "map_of (updateData n s f (Some b) a) ''isDraft'' = Some (JBool b)"
  by (cases a) (simp_all add: updateData_def)

lemma updateData_isArchived: "map_of (updateData n s f d (Some b)) ''isArchived'' = Some (JBool b)"
  by (cases d) (simp_all add: updateData_def)

section \<open>Merging fieldData on create\<close>




section \<open>The update body\<close>

text \<open>
  Claim C4: an \<open>update_collection_item\<close> call whose arguments hold the collection and item
  identifiers and none of the optional fields sends a PATCH request whose body is the
  empty object, so it has no \<open>fieldData\<close>, \<open>isDraft\<close> or \<open>isArchived\<close> key. More generally,
  in the body of any update request that is sent, \<open>isDraft\<close> is absent when the arguments
  have no \<open>isDraft\<close>, \<open>isArchived\<close> is absent when they have no \<open>isArchived\<close>, and
  \<open>fieldData\<close> is absent when they have none of \<open>name\<close>, \<open>slug\<close> and \<open>fieldData\<close>: no
  default is filled in.
\<close>

theorem update_without_optional_fields:
  "(map_of obj ''collectionId'' = Some (JStr c) \<and> map_of obj ''itemId'' = Some (JStr i) \<and>
    map_of obj ''name'' = None \<and> map_of obj ''slug'' = None \<and>
    map_of obj ''fieldData'' = None \<and> map_of obj ''isDraft'' = None \<and>
    map_of obj ''isArchived'' = None \<longrightarrow>
    fst (call_tool fetch tok ''update_collection_item'' (Some (JObj obj))) =
      [\<lparr>req_url = WEBFLOW_API_BASE @ ''/collections/'' @ c @ ''/items/'' @ i,
        req_method = Some ''PATCH'',
        req_headers = [(''Authorization'', ''Bearer '' @ tok), (''Content-Type'', ''application/json'')],
        req_body = Some (JObj [])\<rparr>]) \<and>
   (fst (call_tool fetch tok ''update_collection_item'' (Some (JObj obj))) = [req] \<longrightarrow>
    (\<exists>body. req_body req = Some (JObj body) \<and>
       (map_of obj ''name'' = None \<and> map_of obj ''slug'' = None \<and> map_of obj ''fieldData'' = None
          \<longrightarrow> map_of body ''fieldData'' = None) \<and>
       (map_of obj ''isDraft'' = None \<longrightarrow> map_of body ''isDraft'' = None) \<and>
       (map_of obj ''isArchived'' = None \<longrightarrow> map_of body ''isArchived'' = None)))"
proof (intro conjI impI)
  assume a: "map_of obj ''collectionId'' = Some (JStr c) \<and> map_of obj ''itemId'' = Some (JStr i) \<and>
    map_of obj ''name'' = None \<and> map_of obj ''slug'' = None \<and>
    map_of obj ''fieldData'' = None \<and> map_of obj ''isDraft'' = None \<and>
    map_of obj ''isArchived'' = None"
  then have "UpdateCollectionItemSchema (Some (JObj obj)) = Inr (c, i, None, None, None, None, None)"
    by (simp add: update_schema_Inr field_absent field_string)
  then show "fst (call_tool fetch tok ''update_collection_item'' (Some (JObj obj))) =
      [\<lparr>req_url = WEBFLOW_API_BASE @ ''/collections/'' @ c @ ''/items/'' @ i,
        req_method = Some ''PATCH'',
        req_headers = [(''Authorization'', ''Bearer '' @ tok), (''Content-Type'', ''application/json'')],
        req_body = Some (JObj [])\<rparr>]"
    by (simp add: update_sent updateData_def truthy_def)
next
  assume sent: "fst (call_tool fetch tok ''update_collection_item'' (Some (JObj obj))) = [req]"
  show "\<exists>body. req_body req = Some (JObj body) \<and>
       (map_of obj ''name'' = None \<and> map_of obj ''slug'' = None \<and> map_of obj ''fieldData'' = None
          \<longrightarrow> map_of body ''fieldData'' = None) \<and>
       (map_of obj ''isDraft'' = None \<longrightarrow> map_of body ''isDraft'' = None) \<and>
       (map_of obj ''isArchived'' = None \<longrightarrow> map_of body ''isArchived'' = None)"
  proof (cases "UpdateCollectionItemSchema (Some (JObj obj))")
    case (Inl issues)
    with sent show ?thesis by (simp add: update_not_sent)
  next
    case (Inr params)
    obtain c' i' n s f d a where params: "params = (c', i', n, s, f, d, a)"
      by (cases params)
    from Inr have fields:
      "field ''name'' (z_optional z_string) obj = Inr n"
      "field ''slug'' (z_optional z_string) obj = Inr s"
      "field ''fieldData'' (z_optional z_record_any) obj = Inr f"
      "field ''isDraft'' (z_optional z_boolean) obj = Inr d"
      "field ''isArchived'' (z_optional z_boolean) obj = Inr a"
      by (simp_all add: params update_schema_Inr)
    from Inr sent have body: "req_body req = Some (JObj (updateData n s f d a))"
      by (auto simp: params update_sent)
    have "map_of obj ''name'' = None \<and> map_of obj ''slug'' = None \<and> map_of obj ''fieldData'' = None
            \<longrightarrow> map_of (updateData n s f d a) ''fieldData'' = None"
    proof
      assume "map_of obj ''name'' = None \<and> map_of obj ''slug'' = None \<and> map_of obj ''fieldData'' = None"
      then have "field ''name'' (z_optional z_string) obj = Inr None"
        "field ''slug'' (z_optional z_string) obj = Inr None"
        "field ''fieldData'' (z_optional z_record_any) obj = Inr None"
        by (simp_all add: field_absent)
      with fields(1-3) have "n = None" "s = None" "f = None"
        by simp_all
      then show "map_of (updateData n s f d a) ''fieldData'' = None"
        by (simp add: updateData_no_fieldData truthy_def)
    qed
    moreover have "map_of obj ''isDraft'' = None \<longrightarrow> map_of (updateData n s f d a) ''isDraft'' = None"
      using fields(4) by (auto simp: field_absent updateData_no_isDraft)
    moreover have "map_of obj ''isArchived'' = None \<longrightarrow> map_of (updateData n s f d a) ''isArchived'' = None"
      using fields(5) by (auto simp: field_absent updateData_no_isArchived)
    ultimately show ?thesis using body
      by (intro exI [of _ "updateData n s f d a"] conjI)
  qed
qed

text \<open>The call \<open>{collectionId: "c1", itemId: "i1"}\<close>.\<close>

theorem update_without_optional_fields_witness:
  "fst (call_tool (\<lambda>req. Inl ''connect ECONNREFUSED'') ''t0k3n'' ''update_collection_item''
          (Some (JObj [(''collectionId'', JStr ''c1''), (''itemId'', JStr ''i1'')]))) =
     [\<lparr>req_url = ''https://api.webflow.com/v2/collections/c1/items/i1'',
       req_method = Some ''PATCH'',
       req_headers = [(''Authorization'', ''Bearer t0k3n''), (''Content-Type'', ''application/json'')],
       req_body = Some (JObj [])\<rparr>] \<and>
   (\<exists>body.
      req_body \<lparr>req_url = ''https://api.webflow.com/v2/collections/c1/items/i1'',
                req_method = Some ''PATCH'',
                req_headers = [(''Authorization'', ''Bearer t0k3n''), (''Content-Type'', ''application/json'')],
                req_body = Some (JObj [])\<rparr> = Some (JObj body) \<and>
      map_of body ''fieldData'' = None \<and> map_of body ''isDraft'' = None \<and>
      map_of body ''isArchived'' = None)"
  using update_without_optional_fields
    [of "[(''collectionId'', JStr ''c1''), (''itemId'', JStr ''i1'')]" "''c1''" "''i1''"
        "\<lambda>req. Inl ''connect ECONNREFUSED''" "''t0k3n''"
        "\<lparr>req_url = ''https://api.webflow.com/v2/collections/c1/items/i1'',
          req_method = Some ''PATCH'',
          req_headers = [(''Authorization'', ''Bearer t0k3n''), (''Content-Type'', ''application/json'')],
          req_body = Some (JObj [])\<rparr>"]
  by (simp add: WEBFLOW_API_BASE_def)

section \<open>Defaults of the item listing\<close>

text \<open>
  Claim C5: when the arguments of \<open>get_collection_items\<close> hold a collection identifier and
  neither \<open>limit\<close> nor \<open>offset\<close>, validation yields limit 10 and offset 0, and the one GET
  request sent has the query string \<open>limit=10&offset=0\<close>.
\<close>

theorem items_default_limit_and_offset:
  assumes "map_of obj ''collectionId'' = Some (JStr c)"
    and "map_of obj ''limit'' = None" and "map_of obj ''offset'' = None"
  shows "GetCollectionItemsSchema (Some (JObj obj)) = Inr (c, 10, 0) \<and>
         fst (call_tool fetch tok ''get_collection_items'' (Some (JObj obj))) =
           [\<lparr>req_url = WEBFLOW_API_BASE @ ''/collections/'' @ c @ ''/items?limit=10&offset=0'',
             req_method = None,
             req_headers = [(''Authorization'', ''Bearer '' @ tok), (''Content-Type'', ''application/json'')],
             req_body = None\<rparr>]"
proof -
  have parsed: "GetCollectionItemsSchema (Some (JObj obj)) = Inr (c, 10, 0)"
    using assms by (simp add: items_schema_Inr field_absent field_string)
  have "show_int 10 = ''10''" and "show_int 0 = ''0''"
    by (simp_all add: show_int_def show_nat.simps digit_char_def)
  then show ?thesis
    by (simp add: parsed items_sent [OF parsed])
qed

text \<open>The call \<open>{collectionId: "c1"}\<close>.\<close>

theorem items_default_limit_and_offset_witness:
  "GetCollectionItemsSchema (Some (JObj [(''collectionId'', JStr ''c1'')])) = Inr (''c1'', 10, 0) \<and>
   fst (call_tool (\<lambda>req. Inl ''connect ECONNREFUSED'') ''t0k3n'' ''get_collection_items''
          (Some (JObj [(''collectionId'', JStr ''c1'')]))) =
     [\<lparr>req_url = ''https://api.webflow.com/v2/collections/c1/items?limit=10&offset=0'',
       req_method = None,
       req_headers = [(''Authorization'', ''Bearer t0k3n''), (''Content-Type'', ''application/json'')],
       req_body = None\<rparr>]"
  using items_default_limit_and_offset
    [of "[(''collectionId'', JStr ''c1'')]" "''c1''" "\<lambda>req. Inl ''connect ECONNREFUSED''" "''t0k3n''"]
  by (simp add: WEBFLOW_API_BASE_def)

section \<open>Truthiness in the update body\<close>

lemma updateData_empty_name: "updateData (Some []) s f d a = updateData None s f d a"
  by (simp add: updateData_def update_fieldData_def assign_if_truthy_def truthy_def)

lemma updateData_empty_slug: "updateData n (Some []) f d a = updateData n None f d a"
  by (simp add: updateData_def update_fieldData_def assign_if_truthy_def truthy_def)

lemma update_fieldData_plain:
  "update_fieldData None None None = []"
  "update_fieldData (Some (c # cs)) None None = [(''name'', JStr (c # cs))]"
  "update_fieldData None (Some (e # es)) None = [(''slug'', JStr (e # es))]"
  "update_fieldData (Some (c # cs)) (Some (e # es)) None =
     [(''name'', JStr (c # cs)), (''slug'', JStr (e # es))]"
  by (simp_all add: update_fieldData_def assign_if_truthy_def)

lemma update_fieldData_empty_name: "update_fieldData (Some []) s f = update_fieldData None s f"
  by (simp add: update_fieldData_def assign_if_truthy_def)

lemma update_fieldData_empty_slug: "update_fieldData n (Some []) f = update_fieldData n None f"
  by (simp add: update_fieldData_def assign_if_truthy_def)

lemma spread_onto_empty: "distinct (map fst xs) \<Longrightarrow> spread [] xs = xs"
proof -
  have "distinct (map fst (ys @ xs)) \<Longrightarrow> spread ys xs = ys @ xs" for ys :: "('a \<times> 'b) list"
  proof (induction xs arbitrary: ys)
    case Nil
    show ?case by (simp add: spread_def)
  next
    case (Cons p xs)
    obtain k v where p: "p = (k, v)" by (cases p)
    from Cons.prems have fresh: "k \<notin> fst ` set ys"
      by (auto simp: p)
    then have step: "AList.update k v ys = ys @ [(k, v)]"
      by (induction ys) auto
    from Cons.prems have "distinct (map fst ((ys @ [(k, v)]) @ xs))"
      by (simp add: p)
    then have "spread (ys @ [(k, v)]) xs = (ys @ [(k, v)]) @ xs"
      by (rule Cons.IH)
    then show ?case
      by (simp add: spread_def p step)
  qed
  from this [of "[]"] show "distinct (map fst xs) \<Longrightarrow> spread [] xs = xs" by simp
qed

lemma update_fieldData_distinct: "distinct (map fst (update_fieldData n s None))"
  by (cases n; cases s) (auto simp: update_fieldData_def assign_if_truthy_def)

lemma update_fieldData_merge:
  "update_fieldData n s (Some fd) = spread (update_fieldData n s None) fd"
proof -
  have "update_fieldData n s (Some fd) = spread (spread [] (update_fieldData n s None)) fd"
    by (simp add: update_fieldData_def)
  then show ?thesis
    by (simp add: spread_onto_empty update_fieldData_distinct)
qed

lemma update_fieldData_caller_wins:
  assumes "distinct (map fst fd)" and "map_of fd k = Some v"
  shows "map_of (update_fieldData n s (Some fd)) k = Some v"
  using assms by (simp add: update_fieldData_merge spread_lookup)

lemma update_fieldData_caller_silent:
  assumes "map_of fd k = None"
  shows "map_of (update_fieldData n s (Some fd)) k = map_of (update_fieldData n s None) k"
proof -
  from assms have "map_of (rev fd) k = None"
    by (simp add: map_of_eq_None_iff)
  then show ?thesis
    by (simp add: update_fieldData_merge map_of_spread map_add_def)
qed

lemma update_fieldData_truthy_name:
  "truthy n \<Longrightarrow> map_of (update_fieldData n s None) ''name'' = map_option JStr n"
  by (cases n; cases s) (auto simp: update_fieldData_def assign_if_truthy_def truthy_def Let_def)

lemma update_fieldData_truthy_slug:
  "truthy s \<Longrightarrow> map_of (update_fieldData n s None) ''slug'' = map_option JStr s"
  by (cases n; cases s) (auto simp: update_fieldData_def assign_if_truthy_def truthy_def Let_def)

lemma updateData_shape:
  "updateData n s f d a =
     (if truthy n \<or> truthy s \<or> f \<noteq> None
      then [(''fieldData'', JObj (update_fieldData n s f))] else [])
     @ (case d of None \<Rightarrow> [] | Some b \<Rightarrow> [(''isDraft'', JBool b)])
     @ (case a of None \<Rightarrow> [] | Some b \<Rightarrow> [(''isArchived'', JBool b)])"
  by (cases d; cases a) (simp_all add: updateData_def)

text \<open>
  Claim C10: a validated \<open>update_collection_item\<close> call sends the object \<open>updateData\<close> as
  its body, and in that object presence is decided by truthiness for \<open>name\<close>, \<open>slug\<close> and
  \<open>fieldData\<close>. An empty \<open>name\<close> or \<open>slug\<close> gives the same body, and the same \<open>fieldData\<close>,
  as an absent one. The body is the \<open>fieldData\<close> entry (present exactly when one of the
  three is truthy), then \<open>isDraft\<close> and \<open>isArchived\<close>, each written whenever it is defined,
  also when it is false. Without a caller \<open>fieldData\<close>, the body's \<open>fieldData\<close> holds
  \<open>name\<close> exactly when the name is truthy and \<open>slug\<close> exactly when the slug is truthy,
  with the given strings. A caller \<open>fieldData\<close> is spread over these entries: each of its
  keys (held once) carries the caller's value, and every other key keeps the entry it
  had without the caller's \<open>fieldData\<close>.
\<close>

theorem update_presence_by_truthiness:
  "(UpdateCollectionItemSchema args = Inr (c, i, n, s, f, d, a) \<longrightarrow>
      fst (call_tool fetch tok ''update_collection_item'' args) =
        [\<lparr>req_url = WEBFLOW_API_BASE @ ''/collections/'' @ c @ ''/items/'' @ i,
          req_method = Some ''PATCH'',
          req_headers = [(''Authorization'', ''Bearer '' @ tok), (''Content-Type'', ''application/json'')],
          req_body = Some (JObj (updateData n s f d a))\<rparr>]) \<and>
   updateData (Some []) s f d a = updateData None s f d a \<and>
   updateData n (Some []) f d a = updateData n None f d a \<and>
   (\<not> truthy n \<and> \<not> truthy s \<and> f = None \<longrightarrow>
      map_of (updateData n s f d a) ''fieldData'' = None) \<and>
   (truthy n \<or> truthy s \<or> f \<noteq> None \<longrightarrow>
      map_of (updateData n s f d a) ''fieldData'' = Some (JObj (update_fieldData n s f))) \<and>
   (\<not> truthy n \<and> f = None \<longrightarrow> map_of (update_fieldData n s f) ''name'' = None) \<and>
   (\<not> truthy s \<and> f = None \<longrightarrow> map_of (update_fieldData n s f) ''slug'' = None) \<and>
   map_of (updateData n s f (Some b) a) ''isDraft'' = Some (JBool b) \<and>
   map_of (updateData n s f d (Some b)) ''isArchived'' = Some (JBool b) \<and>
   updateData n s f d a =
     (if truthy n \<or> truthy s \<or> f \<noteq> None
      then [(''fieldData'', JObj (update_fieldData n s f))] else [])
     @ (case d of None \<Rightarrow> [] | Some b \<Rightarrow> [(''isDraft'', JBool b)])
     @ (case a of None \<Rightarrow> [] | Some b \<Rightarrow> [(''isArchived'', JBool b)]) \<and>
   update_fieldData None None None = [] \<and>
   update_fieldData (Some (x # xs)) None None = [(''name'', JStr (x # xs))] \<and>
   update_fieldData None (Some (y # ys)) None = [(''slug'', JStr (y # ys))] \<and>
   update_fieldData (Some (x # xs)) (Some (y # ys)) None =
     [(''name'', JStr (x # xs)), (''slug'', JStr (y # ys))] \<and>
   update_fieldData (Some []) s f = update_fieldData None s f \<and>
   update_fieldData n (Some []) f = update_fieldData n None f \<and>
   update_fieldData n s (Some fd) = spread (update_fieldData n s None) fd \<and>
   (truthy n \<longrightarrow> map_of (update_fieldData n s None) ''name'' = map_option JStr n) \<and>
   (truthy s \<longrightarrow> map_of (update_fieldData n s None) ''slug'' = map_option JStr s) \<and>
   (distinct (map fst fd) \<and> map_of fd k = Some v \<longrightarrow>
      map_of (update_fieldData n s (Some fd)) k = Some v) \<and>
   (map_of fd k = None \<longrightarrow>
      map_of (update_fieldData n s (Some fd)) k = map_of (update_fieldData n s None) k)"
proof -
  have sent: "UpdateCollectionItemSchema args = Inr (c, i, n, s, f, d, a) \<longrightarrow>
      fst (call_tool fetch tok ''update_collection_item'' args) =
        [\<lparr>req_url = WEBFLOW_API_BASE @ ''/collections/'' @ c @ ''/items/'' @ i,
          req_method = Some ''PATCH'',
          req_headers = [(''Authorization'', ''Bearer '' @ tok), (''Content-Type'', ''application/json'')],
          req_body = Some (JObj (updateData n s f d a))\<rparr>]"
    by (simp add: update_sent)
  have no_fd: "\<not> truthy n \<and> \<not> truthy s \<and> f = None \<longrightarrow>
      map_of (updateData n s f d a) ''fieldData'' = None"
    by (simp add: updateData_no_fieldData)
  have with_fd: "truthy n \<or> truthy s \<or> f \<noteq> None \<longrightarrow>
      map_of (updateData n s f d a) ''fieldData'' = Some (JObj (update_fieldData n s f))"
    by (cases d; cases a) (auto simp: updateData_def)
  have no_name: "\<not> truthy n \<and> f = None \<longrightarrow> map_of (update_fieldData n s f) ''name'' = None"
    by (cases n; cases s) (auto simp: update_fieldData_def assign_if_truthy_def truthy_def)
  have no_slug: "\<not> truthy s \<and> f = None \<longrightarrow> map_of (update_fieldData n s f) ''slug'' = None"
    by (cases n; cases s) (auto simp: update_fieldData_def assign_if_truthy_def truthy_def)
  have name: "truthy n \<longrightarrow> map_of (update_fieldData n s None) ''name'' = map_option JStr n"
    by (simp add: update_fieldData_truthy_name)
  have slug: "truthy s \<longrightarrow> map_of (update_fieldData n s None) ''slug'' = map_option JStr s"
    by (simp add: update_fieldData_truthy_slug)
  have wins: "distinct (map fst fd) \<and> map_of fd k = Some v \<longrightarrow>
      map_of (update_fieldData n s (Some fd)) k = Some v"
    by (simp add: update_fieldData_caller_wins)
  have silent: "map_of fd k = None \<longrightarrow>
      map_of (update_fieldData n s (Some fd)) k = map_of (update_fieldData n s None) k"
    by (simp add: update_fieldData_caller_silent)
  note parts = sent updateData_empty_name updateData_empty_slug no_fd with_fd no_name no_slug
    updateData_isDraft updateData_isArchived updateData_shape update_fieldData_plain
    update_fieldData_empty_name update_fieldData_empty_slug update_fieldData_merge
    name slug wins silent
  show ?thesis
    by (intro conjI) (rule parts)+
qed

text \<open>The call \<open>{collectionId: "c1", itemId: "i1", name: "", isDraft: false}\<close> sends the body
  \<open>{isDraft: false}\<close>; a truthy name and slug give \<open>fieldData = {name, slug}\<close>; a caller
  \<open>fieldData\<close> with a slug replaces the slug and keeps the name.\<close>

theorem update_presence_by_truthiness_witness:
  "UpdateCollectionItemSchema
     (Some (JObj [(''collectionId'', JStr ''c1''), (''itemId'', JStr ''i1''),
                  (''name'', JStr []), (''isDraft'', JBool False)])) =
     Inr (''c1'', ''i1'', Some [], None, None, Some False, None) \<and>
   fst (call_tool (\<lambda>req. Inl ''connect ECONNREFUSED'') ''t0k3n'' ''update_collection_item''
          (Some (JObj [(''collectionId'', JStr ''c1''), (''itemId'', JStr ''i1''),
                       (''name'', JStr []), (''isDraft'', JBool False)]))) =
     [\<lparr>req_url = ''https://api.webflow.com/v2/collections/c1/items/i1'',
       req_method = Some ''PATCH'',
       req_headers = [(''Authorization'', ''Bearer t0k3n''), (''Content-Type'', ''application/json'')],
       req_body = Some (JObj [(''isDraft'', JBool False)])\<rparr>] \<and>
   map_of (updateData (Some []) None None (Some False) None) ''fieldData'' = None \<and>
   map_of (updateData (Some ''Renamed'') None None None None) ''fieldData'' =
     Some (JObj [(''name'', JStr ''Renamed'')]) \<and>
   map_of (update_fieldData (Some ''Renamed'') None None) ''slug'' = None \<and>
   map_of (update_fieldData (Some []) (Some ''renamed'') None) ''name'' = None \<and>
   map_of (updateData (Some ''Renamed'') (Some ''renamed'') None None None) ''fieldData'' =
     Some (JObj [(''name'', JStr ''Renamed''), (''slug'', JStr ''renamed'')]) \<and>
   map_of (update_fieldData (Some ''Renamed'') (Some ''renamed'')
             (Some [(''slug'', JStr ''from-field-data''), (''color'', JStr ''red'')])) ''slug'' =
     Some (JStr ''from-field-data'') \<and>
   map_of (update_fieldData (Some ''Renamed'') (Some ''renamed'')
             (Some [(''slug'', JStr ''from-field-data''), (''color'', JStr ''red'')])) ''name'' =
     Some (JStr ''Renamed'')"
proof -
  let ?args = "Some (JObj [(''collectionId'', JStr ''c1''), (''itemId'', JStr ''i1''),
                           (''name'', JStr []), (''isDraft'', JBool False)])"
  let ?fd = "[(''slug'', JStr ''from-field-data''), (''color'', JStr ''red'')]"
  have parsed: "UpdateCollectionItemSchema ?args =
                  Inr (''c1'', ''i1'', Some [], None, None, Some False, None)"
    by (simp add: update_schema_Inr zod_defs)
  note A = update_presence_by_truthiness
        [where args = ?args and c = "''c1''" and i = "''i1''" and fetch = "\<lambda>req. Inl ''connect ECONNREFUSED''"
           and tok = "''t0k3n''" and n = "Some []" and s = "None" and f = None and d = "Some False" and a = None]
  note B = update_presence_by_truthiness
        [where args = ?args and c = "''c1''" and i = "''i1''" and fetch = "\<lambda>req. Inl ''connect ECONNREFUSED''"
           and tok = "''t0k3n''" and n = "Some ''Renamed''" and s = "Some ''renamed''" and f = None and d = None and a = None
           and x = "CHR ''R''" and xs = "''enamed''" and y = "CHR ''r''" and ys = "''enamed''"]
  note C = update_presence_by_truthiness
        [where args = ?args and c = "''c1''" and i = "''i1''" and fetch = "\<lambda>req. Inl ''connect ECONNREFUSED''"
           and tok = "''t0k3n''" and n = "Some ''Renamed''" and s = "None" and f = None and d = None and a = None
           and x = "CHR ''R''" and xs = "''enamed''"]
  note D = update_presence_by_truthiness
        [where args = ?args and c = "''c1''" and i = "''i1''" and fetch = "\<lambda>req. Inl ''connect ECONNREFUSED''"
           and tok = "''t0k3n''" and n = "Some []" and s = "Some ''renamed''" and f = None and d = None and a = None]
  note E = update_presence_by_truthiness
        [where args = ?args and c = "''c1''" and i = "''i1''" and fetch = "\<lambda>req. Inl ''connect ECONNREFUSED''"
           and tok = "''t0k3n''" and n = "Some ''Renamed''" and s = "Some ''renamed''" and fd = ?fd and k = "''slug''"
           and v = "JStr ''from-field-data''"]
  note G = update_presence_by_truthiness
        [where args = ?args and c = "''c1''" and i = "''i1''" and fetch = "\<lambda>req. Inl ''connect ECONNREFUSED''"
           and tok = "''t0k3n''" and n = "Some ''Renamed''" and s = "Some ''renamed''" and fd = ?fd and k = "''name''"]
  have body: "updateData (Some []) None None (Some False) None = [(''isDraft'', JBool False)]"
    using A [THEN conjunct2, THEN conjunct2, THEN conjunct2, THEN conjunct2, THEN conjunct2, THEN conjunct2, THEN conjunct2, THEN conjunct2, THEN conjunct2, THEN conjunct1] by (simp add: truthy_def)
  have sent: "fst (call_tool (\<lambda>req. Inl ''connect ECONNREFUSED'') ''t0k3n'' ''update_collection_item'' ?args) =
     [\<lparr>req_url = ''https://api.webflow.com/v2/collections/c1/items/i1'',
       req_method = Some ''PATCH'',
       req_headers = [(''Authorization'', ''Bearer t0k3n''), (''Content-Type'', ''application/json'')],
       req_body = Some (JObj [(''isDraft'', JBool False)])\<rparr>]"
    using A [THEN conjunct1] parsed by (simp add: body WEBFLOW_API_BASE_def)
  have no_fd: "map_of (updateData (Some []) None None (Some False) None) ''fieldData'' = None"
    using A [THEN conjunct2, THEN conjunct2, THEN conjunct2, THEN conjunct1] by (simp add: truthy_def)
  have only_name: "map_of (updateData (Some ''Renamed'') None None None None) ''fieldData'' =
     Some (JObj [(''name'', JStr ''Renamed'')])"
    using C [THEN conjunct2, THEN conjunct2, THEN conjunct2, THEN conjunct2, THEN conjunct1] C [THEN conjunct2, THEN conjunct2, THEN conjunct2, THEN conjunct2, THEN conjunct2, THEN conjunct2, THEN conjunct2, THEN conjunct2, THEN conjunct2, THEN conjunct2, THEN conjunct2, THEN conjunct1] by (simp add: truthy_def)
  have no_slug: "map_of (update_fieldData (Some ''Renamed'') None None) ''slug'' = None"
    using C [THEN conjunct2, THEN conjunct2, THEN conjunct2, THEN conjunct2, THEN conjunct2, THEN conjunct2, THEN conjunct1] by (simp add: truthy_def)
  have no_name: "map_of (update_fieldData (Some []) (Some ''renamed'') None) ''name'' = None"
    using D [THEN conjunct2, THEN conjunct2, THEN conjunct2, THEN conjunct2, THEN conjunct2, THEN conjunct1] by (simp add: truthy_def)
  have name_and_slug: "map_of (updateData (Some ''Renamed'') (Some ''renamed'') None None None) ''fieldData'' =
     Some (JObj [(''name'', JStr ''Renamed''), (''slug'', JStr ''renamed'')])"
    using B [THEN conjunct2, THEN conjunct2, THEN conjunct2, THEN conjunct2, THEN conjunct1] B [THEN conjunct2, THEN conjunct2, THEN conjunct2, THEN conjunct2, THEN conjunct2, THEN conjunct2, THEN conjunct2, THEN conjunct2, THEN conjunct2, THEN conjunct2, THEN conjunct2, THEN conjunct2, THEN conjunct2, THEN conjunct1] by (simp add: truthy_def)
  have caller_slug: "map_of (update_fieldData (Some ''Renamed'') (Some ''renamed'') (Some ?fd)) ''slug'' =
     Some (JStr ''from-field-data'')"
    using E [THEN conjunct2, THEN conjunct2, THEN conjunct2, THEN conjunct2, THEN conjunct2, THEN conjunct2, THEN conjunct2, THEN conjunct2, THEN conjunct2, THEN conjunct2, THEN conjunct2, THEN conjunct2, THEN conjunct2, THEN conjunct2, THEN conjunct2, THEN conjunct2, THEN conjunct2, THEN conjunct2, THEN conjunct2, THEN conjunct1] by simp
  have kept_name: "map_of (update_fieldData (Some ''Renamed'') (Some ''renamed'') (Some ?fd)) ''name'' =
     Some (JStr ''Renamed'')"
    using G [THEN conjunct2, THEN conjunct2, THEN conjunct2, THEN conjunct2, THEN conjunct2, THEN conjunct2, THEN conjunct2, THEN conjunct2, THEN conjunct2, THEN conjunct2, THEN conjunct2, THEN conjunct2, THEN conjunct2, THEN conjunct2, THEN conjunct2, THEN conjunct2, THEN conjunct2, THEN conjunct2, THEN conjunct2, THEN conjunct2] G [THEN conjunct2, THEN conjunct2, THEN conjunct2, THEN conjunct2, THEN conjunct2, THEN conjunct2, THEN conjunct2, THEN conjunct2, THEN conjunct2, THEN conjunct2, THEN conjunct2, THEN conjunct2, THEN conjunct2, THEN conjunct2, THEN conjunct2, THEN conjunct2, THEN conjunct2, THEN conjunct1] by (simp add: truthy_def)
  from parsed sent no_fd only_name no_slug no_name name_and_slug caller_slug kept_name
  show ?thesis by (intro conjI)
qed

section \<open>Remote failures\<close>

lemma call_tool_not_ok:
  assumes "fst (call_tool fetch tok name args) = [req]" and "fetch req = Inr resp"
    and "\<not> response_ok resp"
  shows "snd (call_tool fetch tok name args) =
           Inl (catch name (Error (''Webflow API error ('' @ show_nat (resp_status resp) @ ''): ''
                                     @ resp_text resp)))"
  using switch_not_ok [of fetch "new_WebflowAPI tok" name args req resp] assms
  by (simp add: call_tool_sent call_tool_result del: append.simps)

text \<open>
  Claim C6: whenever a call sends a request and the response has a status outside
  200..299, the caller receives an internal error whose message is made of the tool
  name, the status in decimal and the response's body text, unchanged. The result does
  not depend on what reading the body as JSON would give.
\<close>

theorem non_success_status_internal_error:
  assumes "fst (call_tool fetch tok name args) = [req]" and "fetch req = Inr resp"
    and "resp_status resp < 200 \<or> 299 < resp_status resp"
  shows "\<exists>msg. snd (call_tool fetch tok name args) = Inl (Mcp InternalError msg) \<and>
           msg = ''MCP error -32603: Error executing '' @ name @ '': Webflow API error (''
                   @ show_nat (resp_status resp) @ ''): '' @ resp_text resp \<and>
           sublist name msg \<and> sublist (show_nat (resp_status resp)) msg \<and>
           sublist (resp_text resp) msg"
proof -
  let ?status = "show_nat (resp_status resp)"
  let ?msg = "''MCP error -32603: Error executing '' @ name @ '': Webflow API error (''
                @ ?status @ ''): '' @ resp_text resp"
  from assms(3) have "\<not> response_ok resp"
    by (auto simp: response_ok_def)
  with assms(1,2) have "snd (call_tool fetch tok name args) = Inl (Mcp InternalError ?msg)"
    by (simp add: call_tool_not_ok catch_def mcp_codes)
  moreover have "sublist name ?msg"
    by (rule sublist_appendI)
  moreover have "sublist ?status ((''MCP error -32603: Error executing '' @ name
                    @ '': Webflow API error ('') @ ?status @ (''): '' @ resp_text resp))"
    by (rule sublist_appendI)
  then have "sublist ?status ?msg" by simp
  moreover have "sublist (resp_text resp) ((''MCP error -32603: Error executing '' @ name
                    @ '': Webflow API error ('' @ ?status @ ''): '') @ resp_text resp)"
    by (rule sublist_append_leftI)
  then have "sublist (resp_text resp) ?msg" by simp
  ultimately show ?thesis by blast
qed

text \<open>A 404 response with the body \<open>Not Found\<close> to a \<open>get_site\<close> call.\<close>

theorem non_success_status_internal_error_witness:
  "snd (call_tool
          (\<lambda>req. Inr \<lparr>resp_status = 404, resp_text = ''Not Found'',
                       resp_json = Inl ''Unexpected token N in JSON at position 0''\<rparr>)
          ''t0k3n'' ''get_site'' (Some (JObj [(''siteId'', JStr ''s1'')]))) =
     Inl (Mcp InternalError
            ''MCP error -32603: Error executing get_site: Webflow API error (404): Not Found'') \<and>
   sublist ''404''
     ''MCP error -32603: Error executing get_site: Webflow API error (404): Not Found'' \<and>
   sublist ''Not Found''
     ''MCP error -32603: Error executing get_site: Webflow API error (404): Not Found''"
proof -
  let ?resp = "\<lparr>resp_status = 404, resp_text = ''Not Found'',
                 resp_json = Inl ''Unexpected token N in JSON at position 0''\<rparr>"
  let ?fetch = "\<lambda>req::request. Inr ?resp :: string + response"
  let ?req = "\<lparr>req_url = ''https://api.webflow.com/v2/sites/s1'', req_method = None,
                req_headers = [(''Authorization'', ''Bearer t0k3n''), (''Content-Type'', ''application/json'')],
                req_body = None\<rparr>"
  have sent: "fst (call_tool ?fetch ''t0k3n'' ''get_site'' (Some (JObj [(''siteId'', JStr ''s1'')]))) = [?req]"
    by (simp add: call_tool_sent switch_def dispatch_simps case_get_site_def GetSiteSchema_def
          zod_defs validated_def respond_sent getSite_def makeRequest_sent startup_headers
          spread_opt_def no_options_def WEBFLOW_API_BASE_def)
  have status: "show_nat 404 = ''404''"
    by (simp add: show_nat.simps digit_char_def)
  from non_success_status_internal_error [of ?fetch "''t0k3n''" "''get_site''" _ ?req ?resp, OF sent]
  show ?thesis
    by (simp add: status)
qed

section \<open>Validation failures\<close>

lemma issues_of_simps: "issues_of (Inl issues) = issues" "issues_of (Inr x) = []"
  by (simp_all add: issues_of_def)









text \<open>A schema that fails reports at least one issue.\<close>

lemma both_nonempty: "a \<noteq> Inl [] \<Longrightarrow> b \<noteq> Inl [] \<Longrightarrow> both a b \<noteq> Inl []"
  by (auto simp: both_def split: sum.splits)

lemma collect_nonempty: "list_all (\<lambda>r. r \<noteq> Inl []) rs \<Longrightarrow> collect rs \<noteq> Inl []"
proof (induction rs)
  case Nil
  show ?case by simp
next
  case (Cons r rs)
  then have "both r (collect rs) \<noteq> Inl []"
    by (simp add: both_nonempty)
  then show ?case
    by (auto split: sum.splits)
qed

lemma scalar_nonempty:
  "z_string p v \<noteq> Inl []" "z_number p v \<noteq> Inl []" "z_boolean p v \<noteq> Inl []"
  "z_record_any p v \<noteq> Inl []"
  by (auto simp: z_string_def z_number_def z_boolean_def z_record_any_def
      split: option.splits json.splits)

lemma optional_nonempty:
  "(\<And>p v. z p v \<noteq> Inl []) \<Longrightarrow> z_optional z p v \<noteq> Inl []"
  "(\<And>p v. z p v \<noteq> Inl []) \<Longrightarrow> z_optional_default z d p v \<noteq> Inl []"
  by (auto simp: z_optional_def z_optional_default_def split: option.splits sum.splits)

lemma array_nonempty:
  assumes "\<And>p v. z p v \<noteq> Inl []"
  shows "z_array z p v \<noteq> Inl []"
proof -
  have "collect (map (\<lambda>(i, x). z (p @ [PIdx i]) (Some x)) ixs) \<noteq> Inl []" for ixs
    by (rule collect_nonempty) (simp add: list_all_iff assms split: prod.splits)
  then show ?thesis
    by (auto simp: z_array_def split: option.splits json.splits)
qed

lemma field_nonempty: "(\<And>p v. z p v \<noteq> Inl []) \<Longrightarrow> field key z obj \<noteq> Inl []"
  by (simp add: field_def)

lemma object_nonempty: "(\<And>obj. shape obj \<noteq> Inl []) \<Longrightarrow> z_object shape v \<noteq> Inl []"
  by (auto simp: z_object_def split: option.splits json.splits)

lemmas nonempty_intros = object_nonempty both_nonempty field_nonempty optional_nonempty
  array_nonempty scalar_nonempty

lemma schemas_nonempty:
  "GetSiteSchema args \<noteq> Inl []"
  "GetCollectionsSchema args \<noteq> Inl []"
  "GetCollectionItemsSchema args \<noteq> Inl []"
  "CreateCollectionItemSchema args \<noteq> Inl []"
  "UpdateCollectionItemSchema args \<noteq> Inl []"
  "DeleteCollectionItemSchema args \<noteq> Inl []"
  "PublishCollectionItemsSchema args \<noteq> Inl []"
  unfolding schema_defs by (intro nonempty_intros)+

lemma issues_of_empty_iff: "r \<noteq> Inl [] \<Longrightarrow> issues_of r = [] \<longleftrightarrow> (\<exists>x. r = Inr x)"
  by (cases r) (simp_all add: issues_of_simps)

lemma validation_passes_iff:
  "schema_issues GetSite args = [] \<longleftrightarrow> (\<exists>x. GetSiteSchema args = Inr x)"
  "schema_issues GetCollections args = [] \<longleftrightarrow> (\<exists>x. GetCollectionsSchema args = Inr x)"
  "schema_issues GetCollectionItems args = [] \<longleftrightarrow> (\<exists>x. GetCollectionItemsSchema args = Inr x)"
  "schema_issues CreateCollectionItem args = [] \<longleftrightarrow> (\<exists>x. CreateCollectionItemSchema args = Inr x)"
  "schema_issues UpdateCollectionItem args = [] \<longleftrightarrow> (\<exists>x. UpdateCollectionItemSchema args = Inr x)"
  "schema_issues DeleteCollectionItem args = [] \<longleftrightarrow> (\<exists>x. DeleteCollectionItemSchema args = Inr x)"
  "schema_issues PublishCollectionItems args = [] \<longleftrightarrow> (\<exists>x. PublishCollectionItemsSchema args = Inr x)"
  by (simp_all only: schema_issues.simps issues_of_empty_iff [OF schemas_nonempty(1)]
        issues_of_empty_iff [OF schemas_nonempty(2)] issues_of_empty_iff [OF schemas_nonempty(3)]
        issues_of_empty_iff [OF schemas_nonempty(4)] issues_of_empty_iff [OF schemas_nonempty(5)]
        issues_of_empty_iff [OF schemas_nonempty(6)] issues_of_empty_iff [OF schemas_nonempty(7)])






end
